theory Spec2Isabelle
  imports Main
begin

section \<open>Strings and paths\<close>

text \<open>
  Go strings are byte sequences: \<^typ>\<open>string\<close>. The helpers below are the functions of
  the Go packages \<open>strings\<close> and \<open>path/filepath\<close> that the program calls, for the
  one-byte separators it passes.
\<close>

definition Contains :: "string \<Rightarrow> char \<Rightarrow> bool" where
  "Contains s c = (c \<in> set s)"

fun Split :: "char \<Rightarrow> string \<Rightarrow> string list" where
  "Split c [] = [[]]"
| "Split c (x # xs) =
     (if x = c then [] # Split c xs
      else (let r = Split c xs in (x # hd r) # tl r))"

definition HasPrefix :: "string \<Rightarrow> string \<Rightarrow> bool" where
  "HasPrefix s p = (take (length p) s = p)"

definition TrimPrefix :: "string \<Rightarrow> string \<Rightarrow> string" where
  "TrimPrefix s p = (if HasPrefix s p then drop (length p) s else s)"

text \<open>\<open>s[:8]\<close>: slicing past the end of a string panics.\<close>

definition slice8 :: "string \<Rightarrow> string option" where
  "slice8 s = (if length s < 8 then None else Some (take 8 s))"

fun join_slash :: "string list \<Rightarrow> string" where
  "join_slash [] = []"
| "join_slash [c] = c"
| "join_slash (c # d # cs) = c @ ''/'' @ join_slash (d # cs)"

text \<open>
  \<open>filepath.Clean\<close>: empty and \<open>.\<close> elements are dropped, a \<open>..\<close> element removes the
  element before it, is dropped at the root of a rooted path and is kept at the front of a
  relative one. \<open>clean_elems rooted ups acc es\<close> reads the elements \<open>es\<close>; \<open>acc\<close> holds
  the elements kept so far, last first, and \<open>ups\<close> counts the leading \<open>..\<close>.
\<close>

fun clean_elems :: "bool \<Rightarrow> nat \<Rightarrow> string list \<Rightarrow> string list \<Rightarrow> string list" where
  "clean_elems rooted ups acc [] = replicate ups ''..'' @ rev acc"
| "clean_elems rooted ups acc (e # es) =
     (if e = [] \<or> e = ''.'' then clean_elems rooted ups acc es
      else if e = ''..'' then
        (case acc of
           _ # acc' \<Rightarrow> clean_elems rooted ups acc' es
         | [] \<Rightarrow> if rooted then clean_elems rooted ups acc es
                 else clean_elems rooted (Suc ups) acc es)
      else clean_elems rooted ups (e # acc) es)"

definition Clean :: "string \<Rightarrow> string" where
  "Clean path =
     (if path = [] then ''.''
      else
        (let rooted = (hd path = CHR ''/'');
             out = join_slash (clean_elems rooted 0 [] (Split CHR ''/'' path))
         in if rooted then CHR ''/'' # out
            else if out = [] then ''.'' else out))"

text \<open>\<open>filepath.Join\<close> of two elements: empty elements are ignored, the rest is cleaned.\<close>

definition Join :: "string \<Rightarrow> string \<Rightarrow> string" where
  "Join a b =
     (if a \<noteq> [] then Clean (a @ ''/'' @ b)
      else if b \<noteq> [] then Clean b
      else [])"

text \<open>\<open>filepath.Dir\<close>: all but the last element of the path, cleaned.\<close>

definition Dir :: "string \<Rightarrow> string" where
  "Dir path = Clean (rev (dropWhile (\<lambda>c. c \<noteq> CHR ''/'') (rev path)))"

section \<open>The file system\<close>

text \<open>
  A file system maps cleaned paths to nodes. A node records the permission bits it was
  created with; a regular file also its bytes. The root, the working directory and its
  ancestors always exist. The lock file \<open>.deps.lock\<close> and the tree below \<open>.deps\<close> live
  in this one file system. The permission bits are recorded and never checked: every
  operation that the kinds of the nodes allow succeeds, as it does for the superuser.
  Symbolic links, the umask and failures of the medium itself are outside the model.
\<close>

datatype node = DirNode nat | FileNode nat string

type_synonym fs = "string \<Rightarrow> node option"

datatype error =
    InvalidURL | InvalidSpec | TransportError | ApiStatus nat | ApiBranchStatus nat
  | BranchNotFound | TagNotFound | ReadError | JsonError | CouldNotResolve string
  | NotADirectory | IsADirectory | NoSuchFile | GzipError | TarError | WriteError

definition lookup :: "fs \<Rightarrow> string \<Rightarrow> node option" where
  "lookup t p =
     (if p = ''/'' \<or> list_all (\<lambda>e. e = ''.'' \<or> e = ''..'') (Split CHR ''/'' p)
      then Some (DirNode 493) else t p)"

text \<open>The path itself and the paths of its ancestors, outermost first.\<close>

definition ancestors :: "string \<Rightarrow> string list" where
  "ancestors p =
     (let es = filter (\<lambda>e. e \<noteq> []) (Split CHR ''/'' p);
          root = (if p \<noteq> [] \<and> hd p = CHR ''/'' then ''/'' else [])
      in map (\<lambda>n. root @ join_slash (take n es)) [1 ..< Suc (length es)])"

datatype stat_result = Found node | ENOENT | ENOTDIR

text \<open>\<open>os.Stat\<close>: walks the ancestors; a regular file on the way is \<open>ENOTDIR\<close>.\<close>

fun walk :: "fs \<Rightarrow> string list \<Rightarrow> stat_result" where
  "walk t [] = Found (DirNode 493)"
| "walk t [p] = (case lookup t p of None \<Rightarrow> ENOENT | Some n \<Rightarrow> Found n)"
| "walk t (p # q # ps) =
     (case lookup t p of
        None \<Rightarrow> ENOENT
      | Some (FileNode _ _) \<Rightarrow> ENOTDIR
      | Some (DirNode _) \<Rightarrow> walk t (q # ps))"

definition Stat :: "fs \<Rightarrow> string \<Rightarrow> stat_result" where
  "Stat t path = walk t (ancestors (Clean path))"

text \<open>
  \<open>os.RemoveAll\<close>: removes the path and everything below it; it does nothing for the
  empty path and refuses a path that ends in a dot.
\<close>

definition below :: "string \<Rightarrow> string \<Rightarrow> bool" where
  "below p k = (k = p \<or> HasPrefix k (if p = ''/'' then p else p @ ''/''))"

definition endsWithDot :: "string \<Rightarrow> bool" where
  "endsWithDot path =
     (path = ''.'' \<or>
      (2 \<le> length path \<and> last path = CHR ''.'' \<and> last (butlast path) = CHR ''/''))"

definition RemoveAll :: "string \<Rightarrow> fs \<Rightarrow> fs" where
  "RemoveAll path t =
     (if path = [] \<or> endsWithDot path then t
      else (\<lambda>k. if below (Clean path) k then None else t k))"

text \<open>
  \<open>os.MkdirAll\<close>: every missing ancestor and the directory itself are created with the
  given permission bits; a regular file on the way is an error, and what was created
  before it stays.
\<close>

fun mkdir_chain :: "string list \<Rightarrow> nat \<Rightarrow> fs \<Rightarrow> error option \<times> fs" where
  "mkdir_chain [] perm t = (None, t)"
| "mkdir_chain (p # ps) perm t =
     (case lookup t p of
        Some (DirNode _) \<Rightarrow> mkdir_chain ps perm t
      | Some (FileNode _ _) \<Rightarrow> (Some NotADirectory, t)
      | None \<Rightarrow> mkdir_chain ps perm (t(p \<mapsto> DirNode perm)))"

definition MkdirAll :: "string \<Rightarrow> nat \<Rightarrow> fs \<Rightarrow> error option \<times> fs" where
  "MkdirAll path perm t = mkdir_chain (ancestors (Clean path)) perm t"

text \<open>
  \<open>os.OpenFile(target, os.O_CREATE|os.O_WRONLY, mode)\<close>, \<open>io.Copy\<close> of the bytes and
  \<open>Close\<close>. The flags hold no \<open>O_TRUNC\<close>: an existing file is opened as it is, keeps
  its permission bits, and is overwritten from offset 0, so that what it held past the
  bytes written stays. A new file is created with \<open>mode\<close>.
\<close>

definition write_file :: "string \<Rightarrow> nat \<Rightarrow> string \<Rightarrow> fs \<Rightarrow> error option \<times> fs" where
  "write_file target mode bytes t =
     (let p = Clean target in
      case Stat t p of
        Found (DirNode _) \<Rightarrow> (Some IsADirectory, t)
      | Found (FileNode m old) \<Rightarrow>
          (None, t(p \<mapsto> FileNode m (bytes @ drop (length bytes) old)))
      | ENOTDIR \<Rightarrow> (Some NotADirectory, t)
      | ENOENT \<Rightarrow>
          (case Stat t (Dir p) of
             Found (DirNode _) \<Rightarrow> (None, t(p \<mapsto> FileNode mode bytes))
           | Found (FileNode _ _) \<Rightarrow> (Some NotADirectory, t)
           | ENOTDIR \<Rightarrow> (Some NotADirectory, t)
           | ENOENT \<Rightarrow> (Some NoSuchFile, t)))"

text \<open>
  \<open>os.ReadFile\<close>, with \<open>None\<close> for its error, and \<open>os.WriteFile\<close>, which opens with
  \<open>os.O_WRONLY|os.O_CREATE|os.O_TRUNC\<close>: an existing file keeps its permission bits and
  holds the bytes written and nothing else.
\<close>

definition ReadFile :: "fs \<Rightarrow> string \<Rightarrow> string option" where
  "ReadFile t name =
     (case Stat t name of
        Found (FileNode _ bytes) \<Rightarrow> Some bytes
      | _ \<Rightarrow> None)"

definition WriteFile :: "string \<Rightarrow> string \<Rightarrow> nat \<Rightarrow> fs \<Rightarrow> error option \<times> fs" where
  "WriteFile name bytes perm t =
     (let p = Clean name in
      case Stat t p of
        Found (DirNode _) \<Rightarrow> (Some IsADirectory, t)
      | Found (FileNode m old) \<Rightarrow> (None, t(p \<mapsto> FileNode m bytes))
      | ENOTDIR \<Rightarrow> (Some NotADirectory, t)
      | ENOENT \<Rightarrow>
          (case Stat t (Dir p) of
             Found (DirNode _) \<Rightarrow> (None, t(p \<mapsto> FileNode perm bytes))
           | Found (FileNode _ _) \<Rightarrow> (Some NotADirectory, t)
           | ENOTDIR \<Rightarrow> (Some NotADirectory, t)
           | ENOENT \<Rightarrow> (Some NoSuchFile, t)))"

section \<open>Archive extraction\<close>

text \<open>
  What \<open>tar.Reader.Next\<close> yields: a header with the entry's bytes, a header whose bytes
  break off (the copy writes what it read and fails), or an error. The end of the list is
  \<open>io.EOF\<close>. A body that is no gzip stream makes \<open>gzip.NewReader\<close> fail.
\<close>

datatype typeflag = TypeReg | TypeDir | TypeXGlobalHeader | TypeOther

record header =
  Typeflag :: typeflag
  Name :: string
  Mode :: nat

datatype tar_item = Entry header string | Truncated header string | Broken

datatype archive = NotGzip | Gzip "tar_item list"

text \<open>
  Lines 199 to 221 of the extraction loop: the entry is written at \<open>target\<close>. Of
  \<open>os.FileMode(header.Mode)\<close> the system call takes the nine permission bits.
\<close>

definition write_entry ::
  "string \<Rightarrow> header \<Rightarrow> string \<Rightarrow> bool \<Rightarrow> fs \<Rightarrow> error option \<times> fs" where
  "write_entry target h bytes complete t =
     (case Typeflag h of
        TypeDir \<Rightarrow> MkdirAll target (Mode h mod 512) t
      | TypeReg \<Rightarrow>
          (case MkdirAll (Dir target) 493 t of
             (Some e, t1) \<Rightarrow> (Some e, t1)
           | (None, t1) \<Rightarrow>
               (case write_file target (Mode h mod 512) bytes t1 of
                  (Some e, t2) \<Rightarrow> (Some e, t2)
                | (None, t2) \<Rightarrow> (if complete then None else Some TarError, t2)))
      | _ \<Rightarrow> (None, t))"

text \<open>Lines 173 to 179: the root directory is detected once, while none is known.\<close>

definition detect :: "string \<Rightarrow> string \<Rightarrow> string" where
  "detect rootDir name =
     (if rootDir = [] \<and> Contains name CHR ''/'' then
        (let parts = Split CHR ''/'' name in
         if 0 < length parts \<and> Contains (hd parts) CHR ''-'' then hd parts @ ''/''
         else rootDir)
      else rootDir)"

definition is_global_header :: "header \<Rightarrow> bool" where
  "is_global_header h = (Typeflag h = TypeXGlobalHeader \<or> Name h = ''pax_global_header'')"

text \<open>One round of the loop for a header that \<open>Next\<close> returned: the new root directory
  and either \<open>None\<close> (\<open>continue\<close>) or the target to write.\<close>

definition route :: "string \<Rightarrow> string \<Rightarrow> header \<Rightarrow> string \<times> string option" where
  "route destPath rootDir h =
     (if is_global_header h then (rootDir, None)
      else
        (let rootDir' = detect rootDir (Name h) in
         if Typeflag h = TypeDir \<and> rootDir' \<noteq> [] \<and> Name h = butlast rootDir'
         then (rootDir', None)
         else if rootDir' = [] \<or> \<not> HasPrefix (Name h) rootDir' then (rootDir', None)
         else
           (let name = TrimPrefix (Name h) rootDir' in
            if name = [] then (rootDir', None)
            else (rootDir', Some (Join destPath name)))))"

fun extract_loop :: "string \<Rightarrow> string \<Rightarrow> tar_item list \<Rightarrow> fs \<Rightarrow> error option \<times> fs" where
  "extract_loop destPath rootDir [] t = (None, t)"
| "extract_loop destPath rootDir (Broken # rest) t = (Some TarError, t)"
| "extract_loop destPath rootDir (Entry h bytes # rest) t =
     (case route destPath rootDir h of
        (rootDir', None) \<Rightarrow> extract_loop destPath rootDir' rest t
      | (rootDir', Some target) \<Rightarrow>
          (case write_entry target h bytes True t of
             (Some e, t1) \<Rightarrow> (Some e, t1)
           | (None, t1) \<Rightarrow> extract_loop destPath rootDir' rest t1))"
| "extract_loop destPath rootDir (Truncated h bytes # rest) t =
     (case route destPath rootDir h of
        (rootDir', None) \<Rightarrow> extract_loop destPath rootDir' rest t
      | (rootDir', Some target) \<Rightarrow>
          (case write_entry target h bytes False t of
             (Some e, t1) \<Rightarrow> (Some e, t1)
           | (None, t1) \<Rightarrow> extract_loop destPath rootDir' rest t1))"

definition extractTarball :: "archive \<Rightarrow> string \<Rightarrow> fs \<Rightarrow> error option \<times> fs" where
  "extractTarball r destPath t =
     (let t0 = RemoveAll destPath t in
      case MkdirAll destPath 493 t0 of
        (Some e, t1) \<Rightarrow> (Some e, t1)
      | (None, t1) \<Rightarrow>
          (case r of
             NotGzip \<Rightarrow> (Some GzipError, t1)
           | Gzip items \<Rightarrow> extract_loop destPath [] items t1))"

section \<open>Extraction below a known wrapper\<close>

text \<open>
  The extraction as the specification words it, for a wrapper segment known beforehand:
  metadata entries, the wrapper directory's own entry (named with or without its slash) and
  every entry that is not under the wrapper are skipped; every other entry is written at
  the destination joined with its name less the wrapper segment and the slash after it.
  \<open>first_slash_entry\<close> is the first entry, of those that are no metadata, whose name holds
  a slash.
\<close>

definition first_segment :: "string \<Rightarrow> string" where
  "first_segment name = hd (Split CHR ''/'' name)"

fun first_slash_entry :: "tar_item list \<Rightarrow> header option" where
  "first_slash_entry [] = None"
| "first_slash_entry (Broken # rest) = None"
| "first_slash_entry (Entry h bytes # rest) =
     (if \<not> is_global_header h \<and> Contains (Name h) CHR ''/'' then Some h
      else first_slash_entry rest)"
| "first_slash_entry (Truncated h bytes # rest) =
     (if \<not> is_global_header h \<and> Contains (Name h) CHR ''/'' then Some h
      else first_slash_entry rest)"

definition stripped_target :: "string \<Rightarrow> string \<Rightarrow> header \<Rightarrow> string option" where
  "stripped_target destPath seg h =
     (if is_global_header h then None
      else if Typeflag h = TypeDir \<and> Name h = seg then None
      else if \<not> HasPrefix (Name h) (seg @ ''/'') then None
      else if drop (Suc (length seg)) (Name h) = [] then None
      else Some (Join destPath (drop (Suc (length seg)) (Name h))))"

fun extract_stripped :: "string \<Rightarrow> string \<Rightarrow> tar_item list \<Rightarrow> fs \<Rightarrow> error option \<times> fs" where
  "extract_stripped destPath seg [] t = (None, t)"
| "extract_stripped destPath seg (Broken # rest) t = (Some TarError, t)"
| "extract_stripped destPath seg (Entry h bytes # rest) t =
     (case stripped_target destPath seg h of
        None \<Rightarrow> extract_stripped destPath seg rest t
      | Some target \<Rightarrow>
          (case write_entry target h bytes True t of
             (Some e, t1) \<Rightarrow> (Some e, t1)
           | (None, t1) \<Rightarrow> extract_stripped destPath seg rest t1))"
| "extract_stripped destPath seg (Truncated h bytes # rest) t =
     (case stripped_target destPath seg h of
        None \<Rightarrow> extract_stripped destPath seg rest t
      | Some target \<Rightarrow>
          (case write_entry target h bytes False t of
             (Some e, t1) \<Rightarrow> (Some e, t1)
           | (None, t1) \<Rightarrow> extract_stripped destPath seg rest t1))"

section \<open>The remote, the lock file and the process\<close>

record Dependency =
  Ref :: string
  SHA :: string

text \<open>
  \<open>LockFile.Dependencies\<close> is a Go map. \<open>None\<close> is the nil map, which reads as an
  empty one and panics when written. A map is a list of its pairs, in the order in which
  \<open>range\<close> happens to enumerate them; the Go runtime may choose any order, and the
  theorems below hold for every list.
\<close>

record LockFile =
  Dependencies :: "(string \<times> Dependency) list option"

definition entries :: "LockFile \<Rightarrow> (string \<times> Dependency) list" where
  "entries lockFile = (case Dependencies lockFile of None \<Rightarrow> [] | Some m \<Rightarrow> m)"

fun store :: "string \<Rightarrow> Dependency \<Rightarrow> (string \<times> Dependency) list \<Rightarrow> (string \<times> Dependency) list" where
  "store k v [] = [(k, v)]"
| "store k v ((k', v') # m) = (if k = k' then (k, v) # m else (k', v') # store k v m)"

text \<open>What \<open>http.Get\<close> returns: an error, or a status with a body that can be read or not.\<close>

datatype http_result = NoResponse | Response nat "string option"

text \<open>The lines the program prints, one constructor for each print statement.\<close>

datatype event =
    WarnParse error
  | DownloadedTo string
  | ErrParsingSpec error | ErrParsingURL error | Fetching string string
  | ErrResolvingRef error | ResolvedTo string string | ErrDownloadingRepo error
  | ErrSavingLock error | Added string string string
  | NoDependencies
  | Checking nat | CheckError string error | CheckOk string string string
  | CheckMissing string | AllUpToDate | NeedAttention
  | Installing nat | InstallCheckError string error | AlreadyInstalled string string string
  | InstallingDep string string string | InstallErrParsingURL string error
  | InstallErrDownloading string error | Installed string string string | InstallComplete
  | UpdErrParsingURL string error | UpdErrResolving string string error
  | NoUpdateAvailable string string string | UpdateAvailable string
  | CurrentIs string string | LatestIs string string | UpdErrDownloading error
  | Updated string string string
  | NotFoundInLock string | CheckingUpdates nat

datatype outcome = Returned | Exit nat | Panic

text \<open>
  The world of one run. The remote answers by URL. The decoders of \<open>encoding/json\<close>,
  \<open>compress/gzip\<close> and \<open>archive/tar\<close> are parameters: \<open>unmarshal_branch\<close> gives
  \<open>Commit.SHA\<close> of the decoded \<open>GitHubBranch\<close>, \<open>unmarshal_lock\<close> gives the lock file as
  \<open>json.Unmarshal\<close> leaves it, with its error. \<open>requests\<close> logs the URLs requested,
  \<open>lock_writes\<close> counts the calls of \<open>os.WriteFile\<close> on the lock file. \<open>tree\<close> is the
  file system, in which the lock file is the node at \<open>.deps.lock\<close>.
\<close>

record world =
  http_get :: "string \<Rightarrow> http_result"
  unmarshal_repo :: "string \<Rightarrow> string option"
  unmarshal_branch :: "string \<Rightarrow> string option"
  unmarshal_ref :: "string \<Rightarrow> string option"
  unmarshal_lock :: "string \<Rightarrow> LockFile \<Rightarrow> LockFile \<times> error option"
  marshal_lock :: "LockFile \<Rightarrow> string option"
  gunzip :: "string option \<Rightarrow> archive"
  requests :: "string list"
  tree :: fs
  lock_writes :: nat
  stdout :: "event list"

definition print :: "event \<Rightarrow> world \<Rightarrow> world" where
  "print e w = w\<lparr>stdout := stdout w @ [e]\<rparr>"

definition http_Get :: "string \<Rightarrow> world \<Rightarrow> http_result \<times> world" where
  "http_Get url w = (http_get w url, w\<lparr>requests := requests w @ [url]\<rparr>)"

section \<open>github.go\<close>

text \<open>The pattern \<open>^github\.com/([^/]+)/([^/]+)/?$\<close>.\<close>

definition parseGitHubURL :: "string \<Rightarrow> error + string \<times> string" where
  "parseGitHubURL url =
     (case Split CHR ''/'' url of
        [g, a, b] \<Rightarrow>
          if g = ''github.com'' \<and> a \<noteq> [] \<and> b \<noteq> [] then Inr (a, b) else Inl InvalidURL
      | [g, a, b, e] \<Rightarrow>
          if g = ''github.com'' \<and> a \<noteq> [] \<and> b \<noteq> [] \<and> e = [] then Inr (a, b)
          else Inl InvalidURL
      | _ \<Rightarrow> Inl InvalidURL)"

definition parseGitHubSpec :: "string \<Rightarrow> error + string \<times> string" where
  "parseGitHubSpec spec =
     (case Split CHR ''@'' spec of
        [a] \<Rightarrow> Inr (a, [])
      | [a, b] \<Rightarrow> Inr (a, b)
      | _ \<Rightarrow> Inl InvalidSpec)"

text \<open>The pattern \<open>^[a-f0-9]{40}$\<close>.\<close>

definition is_commit_sha :: "string \<Rightarrow> bool" where
  "is_commit_sha ref = (length ref = 40 \<and> list_all (\<lambda>c. c \<in> set ''abcdef0123456789'') ref)"

definition repo_url :: "string \<Rightarrow> string \<Rightarrow> string" where
  "repo_url owner repo = ''https://api.github.com/repos/'' @ owner @ ''/'' @ repo"

definition branch_url :: "string \<Rightarrow> string \<Rightarrow> string \<Rightarrow> string" where
  "branch_url owner repo branch = repo_url owner repo @ ''/branches/'' @ branch"

definition tag_url :: "string \<Rightarrow> string \<Rightarrow> string \<Rightarrow> string" where
  "tag_url owner repo tag = repo_url owner repo @ ''/git/refs/tags/'' @ tag"

definition tarball_url :: "string \<Rightarrow> string \<Rightarrow> string \<Rightarrow> string" where
  "tarball_url owner repo sha = repo_url owner repo @ ''/tarball/'' @ sha"

definition getBranchCommitSHA ::
  "string \<Rightarrow> string \<Rightarrow> string \<Rightarrow> world \<Rightarrow> (error + string \<times> string) \<times> world" where
  "getBranchCommitSHA owner repo branch w =
     (case http_Get (branch_url owner repo branch) w of
        (NoResponse, w1) \<Rightarrow> (Inl TransportError, w1)
      | (Response status body, w1) \<Rightarrow>
          if status \<noteq> 200 then (Inl BranchNotFound, w1)
          else
            (case body of
               None \<Rightarrow> (Inl ReadError, w1)
             | Some b \<Rightarrow>
                 (case unmarshal_branch w1 b of
                    None \<Rightarrow> (Inl JsonError, w1)
                  | Some sha \<Rightarrow> (Inr (sha, branch), w1))))"

definition getTagCommitSHA ::
  "string \<Rightarrow> string \<Rightarrow> string \<Rightarrow> world \<Rightarrow> (error + string) \<times> world" where
  "getTagCommitSHA owner repo tag w =
     (case http_Get (tag_url owner repo tag) w of
        (NoResponse, w1) \<Rightarrow> (Inl TransportError, w1)
      | (Response status body, w1) \<Rightarrow>
          if status \<noteq> 200 then (Inl TagNotFound, w1)
          else
            (case body of
               None \<Rightarrow> (Inl ReadError, w1)
             | Some b \<Rightarrow>
                 (case unmarshal_ref w1 b of
                    None \<Rightarrow> (Inl JsonError, w1)
                  | Some sha \<Rightarrow> (Inr sha, w1))))"

definition getLatestCommitSHA ::
  "string \<Rightarrow> string \<Rightarrow> world \<Rightarrow> (error + string \<times> string) \<times> world" where
  "getLatestCommitSHA owner repo w =
     (case http_Get (repo_url owner repo) w of
        (NoResponse, w1) \<Rightarrow> (Inl TransportError, w1)
      | (Response status body, w1) \<Rightarrow>
          if status \<noteq> 200 then (Inl (ApiStatus status), w1)
          else
            (case body of
               None \<Rightarrow> (Inl ReadError, w1)
             | Some b \<Rightarrow>
                 (case unmarshal_repo w1 b of
                    None \<Rightarrow> (Inl JsonError, w1)
                  | Some defaultBranch \<Rightarrow>
                      (case http_Get (branch_url owner repo defaultBranch) w1 of
                         (NoResponse, w2) \<Rightarrow> (Inl TransportError, w2)
                       | (Response status2 body2, w2) \<Rightarrow>
                           if status2 \<noteq> 200 then (Inl (ApiBranchStatus status2), w2)
                           else
                             (case body2 of
                                None \<Rightarrow> (Inl ReadError, w2)
                              | Some b2 \<Rightarrow>
                                  (case unmarshal_branch w2 b2 of
                                     None \<Rightarrow> (Inl JsonError, w2)
                                   | Some sha \<Rightarrow> (Inr (sha, defaultBranch), w2)))))))"

definition resolveRef ::
  "string \<Rightarrow> string \<Rightarrow> string \<Rightarrow> world \<Rightarrow> (error + string \<times> string) \<times> world" where
  "resolveRef owner repo ref w =
     (if ref = [] then getLatestCommitSHA owner repo w
      else if is_commit_sha ref then (Inr (ref, ref), w)
      else
        (case getBranchCommitSHA owner repo ref w of
           (Inr (sha, resolvedRef), w1) \<Rightarrow> (Inr (sha, resolvedRef), w1)
         | (Inl _, w1) \<Rightarrow>
             (case getTagCommitSHA owner repo ref w1 of
                (Inr sha, w2) \<Rightarrow> (Inr (sha, ref), w2)
              | (Inl _, w2) \<Rightarrow> (Inl (CouldNotResolve ref), w2))))"

section \<open>The lock store and the download\<close>

definition loadLockFile :: "world \<Rightarrow> LockFile \<times> world" where
  "loadLockFile w =
     (let lockFile = \<lparr>Dependencies = Some []\<rparr> in
      case ReadFile (tree w) ''.deps.lock'' of
        None \<Rightarrow> (lockFile, w)
      | Some bytes \<Rightarrow>
          (case unmarshal_lock w bytes lockFile of
             (lockFile', Some e) \<Rightarrow> (\<lparr>Dependencies = Some []\<rparr>, print (WarnParse e) w)
           | (lockFile', None) \<Rightarrow> (lockFile', w)))"

definition saveLockFile :: "LockFile \<Rightarrow> world \<Rightarrow> error option \<times> world" where
  "saveLockFile lockFile w =
     (case marshal_lock w lockFile of
        None \<Rightarrow> (Some JsonError, w)
      | Some bytes \<Rightarrow>
          (case WriteFile ''.deps.lock'' bytes 420 (tree w) of
             (r, t1) \<Rightarrow> (r, w\<lparr>tree := t1, lock_writes := Suc (lock_writes w)\<rparr>)))"

definition getDepPath :: "string \<Rightarrow> string" where
  "getDepPath repoURL = Join ''.deps'' repoURL"

definition checkDependency :: "string \<Rightarrow> Dependency \<Rightarrow> world \<Rightarrow> error + string" where
  "checkDependency repoURL dep w =
     (let depPath = getDepPath repoURL in
      if Stat (tree w) depPath = ENOENT then Inr ''missing'' else Inr ''ok'')"

definition downloadRepo ::
  "string \<Rightarrow> string \<Rightarrow> string \<Rightarrow> string \<Rightarrow> world \<Rightarrow> error option \<times> world" where
  "downloadRepo owner repo sha repoURL w =
     (case MkdirAll ''.deps'' 493 (tree w) of
        (Some e, t1) \<Rightarrow> (Some e, w\<lparr>tree := t1\<rparr>)
      | (None, t1) \<Rightarrow>
          (case http_Get (tarball_url owner repo sha) (w\<lparr>tree := t1\<rparr>) of
             (NoResponse, w2) \<Rightarrow> (Some TransportError, w2)
           | (Response status body, w2) \<Rightarrow>
               if status \<noteq> 200 then (Some (ApiStatus status), w2)
               else
                 (let depPath = getDepPath repoURL in
                  case extractTarball (gunzip w2 body) depPath (tree w2) of
                    (Some e, t3) \<Rightarrow> (Some e, w2\<lparr>tree := t3\<rparr>)
                  | (None, t3) \<Rightarrow> (None, print (DownloadedTo depPath) (w2\<lparr>tree := t3\<rparr>)))))"

text \<open>
  \<open>updateDependency\<close> returns whether the entry was updated, \<open>None\<close> when it panics, with
  the lock file it was handed, changed or not.
\<close>

definition updateDependency ::
  "string \<Rightarrow> Dependency \<Rightarrow> LockFile \<Rightarrow> world \<Rightarrow> bool option \<times> LockFile \<times> world" where
  "updateDependency repoURL dep lockFile w =
     (case parseGitHubURL repoURL of
        Inl e \<Rightarrow> (Some False, lockFile, print (UpdErrParsingURL repoURL e) w)
      | Inr (owner, repo) \<Rightarrow>
          (case resolveRef owner repo (Ref dep) w of
             (Inl e, w1) \<Rightarrow> (Some False, lockFile, print (UpdErrResolving repoURL (Ref dep) e) w1)
           | (Inr (currentSHA, currentRef), w1) \<Rightarrow>
               if currentSHA = SHA dep then
                 (case slice8 (SHA dep) of
                    None \<Rightarrow> (None, lockFile, w1)
                  | Some s \<Rightarrow>
                      (Some False, lockFile, print (NoUpdateAvailable repoURL (Ref dep) s) w1))
               else
                 (let w2 = print (UpdateAvailable repoURL) w1 in
                  case slice8 (SHA dep) of
                    None \<Rightarrow> (None, lockFile, w2)
                  | Some s \<Rightarrow>
                      (let w3 = print (CurrentIs s (Ref dep)) w2 in
                       case slice8 currentSHA of
                         None \<Rightarrow> (None, lockFile, w3)
                       | Some c \<Rightarrow>
                           (let w4 = print (LatestIs c currentRef) w3 in
                            case downloadRepo owner repo currentSHA repoURL w4 of
                              (Some e, w5) \<Rightarrow>
                                (Some False, lockFile, print (UpdErrDownloading e) w5)
                            | (None, w5) \<Rightarrow>
                                (case Dependencies lockFile of
                                   None \<Rightarrow> (None, lockFile, w5)
                                 | Some m \<Rightarrow>
                                     (let lockFile' = lockFile
                                            \<lparr>Dependencies :=
                                               Some (store repoURL
                                                 \<lparr>Ref = Ref dep, SHA = currentSHA\<rparr> m)\<rparr>
                                      in case slice8 currentSHA of
                                           None \<Rightarrow> (None, lockFile', w5)
                                         | Some c' \<Rightarrow>
                                             (Some True, lockFile',
                                              print (Updated repoURL currentRef c') w5))))))))"

section \<open>The commands\<close>

definition handleGet :: "string \<Rightarrow> world \<Rightarrow> outcome \<times> world" where
  "handleGet repoSpec w =
     (case parseGitHubSpec repoSpec of
        Inl e \<Rightarrow> (Exit 1, print (ErrParsingSpec e) w)
      | Inr (repoURL, ref) \<Rightarrow>
          (case parseGitHubURL repoURL of
             Inl e \<Rightarrow> (Exit 1, print (ErrParsingURL e) w)
           | Inr (owner, repo) \<Rightarrow>
               (case resolveRef owner repo ref (print (Fetching repoURL ref) w) of
                  (Inl e, w1) \<Rightarrow> (Exit 1, print (ErrResolvingRef e) w1)
                | (Inr (sha, resolvedRef), w1) \<Rightarrow>
                    (case slice8 sha of
                       None \<Rightarrow> (Panic, w1)
                     | Some s \<Rightarrow>
                         (case downloadRepo owner repo sha repoURL
                                 (print (ResolvedTo resolvedRef s) w1) of
                            (Some e, w2) \<Rightarrow> (Exit 1, print (ErrDownloadingRepo e) w2)
                          | (None, w2) \<Rightarrow>
                              (case loadLockFile w2 of
                                 (lockFile, w3) \<Rightarrow>
                                   (let originalRef = (if ref = [] then resolvedRef else ref) in
                                    case Dependencies lockFile of
                                      None \<Rightarrow> (Panic, w3)
                                    | Some m \<Rightarrow>
                                        (case saveLockFile
                                                (lockFile\<lparr>Dependencies :=
                                                   Some (store repoURL
                                                     \<lparr>Ref = originalRef, SHA = sha\<rparr> m)\<rparr>) w3 of
                                           (Some e, w4) \<Rightarrow> (Exit 1, print (ErrSavingLock e) w4)
                                         | (None, w4) \<Rightarrow>
                                             (case slice8 sha of
                                                None \<Rightarrow> (Panic, w4)
                                              | Some s' \<Rightarrow>
                                                  (Returned,
                                                   print (Added repoURL resolvedRef s') w4))))))))))"

text \<open>The loops return \<open>None\<close> when an entry panics.\<close>

fun check_loop :: "(string \<times> Dependency) list \<Rightarrow> bool \<Rightarrow> world \<Rightarrow> bool option \<times> world" where
  "check_loop [] allGood w = (Some allGood, w)"
| "check_loop ((repoURL, dep) # rest) allGood w =
     (case checkDependency repoURL dep w of
        Inl e \<Rightarrow> check_loop rest False (print (CheckError repoURL e) w)
      | Inr status \<Rightarrow>
          if status = ''ok'' then
            (case slice8 (SHA dep) of
               None \<Rightarrow> (None, w)
             | Some s \<Rightarrow> check_loop rest allGood (print (CheckOk repoURL (Ref dep) s) w))
          else if status = ''missing'' then
            check_loop rest False (print (CheckMissing repoURL) w)
          else check_loop rest allGood w)"

definition handleCheck :: "world \<Rightarrow> outcome \<times> world" where
  "handleCheck w =
     (case loadLockFile w of
        (lockFile, w1) \<Rightarrow>
          if length (entries lockFile) = 0 then (Returned, print NoDependencies w1)
          else
            (case check_loop (entries lockFile) True
                    (print (Checking (length (entries lockFile))) w1) of
               (None, w2) \<Rightarrow> (Panic, w2)
             | (Some allGood, w2) \<Rightarrow>
                 (Returned, print (if allGood then AllUpToDate else NeedAttention) w2)))"

text \<open>The body of the loop of \<open>handleInstall\<close>; \<open>False\<close> when it panics.\<close>

definition install_entry :: "string \<Rightarrow> Dependency \<Rightarrow> world \<Rightarrow> bool \<times> world" where
  "install_entry repoURL dep w =
     (case checkDependency repoURL dep w of
        Inl e \<Rightarrow> (True, print (InstallCheckError repoURL e) w)
      | Inr status \<Rightarrow>
          if status = ''ok'' then
            (case slice8 (SHA dep) of
               None \<Rightarrow> (False, w)
             | Some s \<Rightarrow> (True, print (AlreadyInstalled repoURL (Ref dep) s) w))
          else
            (case slice8 (SHA dep) of
               None \<Rightarrow> (False, w)
             | Some s \<Rightarrow>
                 (let w1 = print (InstallingDep repoURL (Ref dep) s) w in
                  case parseGitHubURL repoURL of
                    Inl e \<Rightarrow> (True, print (InstallErrParsingURL repoURL e) w1)
                  | Inr (owner, repo) \<Rightarrow>
                      (case downloadRepo owner repo (SHA dep) repoURL w1 of
                         (Some e, w2) \<Rightarrow> (True, print (InstallErrDownloading repoURL e) w2)
                       | (None, w2) \<Rightarrow>
                           (case slice8 (SHA dep) of
                              None \<Rightarrow> (False, w2)
                            | Some s' \<Rightarrow>
                                (True, print (Installed repoURL (Ref dep) s') w2))))))"

fun install_loop :: "(string \<times> Dependency) list \<Rightarrow> world \<Rightarrow> bool \<times> world" where
  "install_loop [] w = (True, w)"
| "install_loop ((repoURL, dep) # rest) w =
     (case install_entry repoURL dep w of
        (False, w1) \<Rightarrow> (False, w1)
      | (True, w1) \<Rightarrow> install_loop rest w1)"

definition handleInstall :: "world \<Rightarrow> outcome \<times> world" where
  "handleInstall w =
     (case loadLockFile w of
        (lockFile, w1) \<Rightarrow>
          if length (entries lockFile) = 0 then (Returned, print NoDependencies w1)
          else
            (case install_loop (entries lockFile)
                    (print (Installing (length (entries lockFile))) w1) of
               (False, w2) \<Rightarrow> (Panic, w2)
             | (True, w2) \<Rightarrow> (Returned, print InstallComplete w2)))"

fun update_loop ::
  "(string \<times> Dependency) list \<Rightarrow> bool \<Rightarrow> LockFile \<Rightarrow> world \<Rightarrow> bool option \<times> LockFile \<times> world" where
  "update_loop [] updated lockFile w = (Some updated, lockFile, w)"
| "update_loop ((repoURL, dep) # rest) updated lockFile w =
     (case updateDependency repoURL dep lockFile w of
        (None, lockFile', w1) \<Rightarrow> (None, lockFile', w1)
      | (Some u, lockFile', w1) \<Rightarrow>
          update_loop rest (if u then True else updated) lockFile' w1)"

text \<open>Lines 227 to 234: the lock file is saved only if something was updated.\<close>

definition save_if :: "bool \<Rightarrow> LockFile \<Rightarrow> world \<Rightarrow> outcome \<times> world" where
  "save_if updated lockFile w =
     (if updated then
        (case saveLockFile lockFile w of
           (Some e, w1) \<Rightarrow> (Exit 1, print (ErrSavingLock e) w1)
         | (None, w1) \<Rightarrow> (Returned, w1))
      else (Returned, w))"

definition handleUpdate :: "string \<Rightarrow> world \<Rightarrow> outcome \<times> world" where
  "handleUpdate specificRepo w =
     (case loadLockFile w of
        (lockFile, w1) \<Rightarrow>
          if length (entries lockFile) = 0 then (Returned, print NoDependencies w1)
          else if specificRepo \<noteq> [] then
            (case map_of (entries lockFile) specificRepo of
               None \<Rightarrow> (Exit 1, print (NotFoundInLock specificRepo) w1)
             | Some dep \<Rightarrow>
                 (case updateDependency specificRepo dep lockFile w1 of
                    (None, lockFile', w2) \<Rightarrow> (Panic, w2)
                  | (Some updated, lockFile', w2) \<Rightarrow> save_if updated lockFile' w2))
          else
            (case update_loop (entries lockFile) False lockFile
                    (print (CheckingUpdates (length (entries lockFile))) w1) of
               (None, lockFile', w2) \<Rightarrow> (Panic, w2)
             | (Some updated, lockFile', w2) \<Rightarrow>
                 save_if updated lockFile'
                   (if \<not> updated then print AllUpToDate w2 else w2)))"

section \<open>The remote as the resolver sees it\<close>

text \<open>
  A lookup by name succeeds when the remote answers with status 200 and a body that can be
  read and decoded; everything else is a failed lookup.
\<close>

definition branch_lookup :: "world \<Rightarrow> string \<Rightarrow> string \<Rightarrow> string \<Rightarrow> string option" where
  "branch_lookup w owner repo name =
     (case http_get w (branch_url owner repo name) of
        Response status (Some b) \<Rightarrow> if status = 200 then unmarshal_branch w b else None
      | _ \<Rightarrow> None)"

definition tag_lookup :: "world \<Rightarrow> string \<Rightarrow> string \<Rightarrow> string \<Rightarrow> string option" where
  "tag_lookup w owner repo name =
     (case http_get w (tag_url owner repo name) of
        Response status (Some b) \<Rightarrow> if status = 200 then unmarshal_ref w b else None
      | _ \<Rightarrow> None)"

text \<open>The world after the given URLs were requested, in this order.\<close>

definition asked :: "string list \<Rightarrow> world \<Rightarrow> world" where
  "asked urls w = w\<lparr>requests := requests w @ urls\<rparr>"

text \<open>
  \<open>quiet w w'\<close>: the two worlds have the same remote and decoders, and the lock file was
  written by \<open>saveLockFile\<close> as often; the request log, the tree and the output may differ.
\<close>

definition quiet :: "world \<Rightarrow> world \<Rightarrow> bool" where
  "quiet w w' =
     (http_get w' = http_get w \<and> unmarshal_repo w' = unmarshal_repo w \<and>
      unmarshal_branch w' = unmarshal_branch w \<and> unmarshal_ref w' = unmarshal_ref w \<and>
      unmarshal_lock w' = unmarshal_lock w \<and> marshal_lock w' = marshal_lock w \<and>
      gunzip w' = gunzip w \<and> lock_writes w' = lock_writes w)"

text \<open>
  What the remote resolves a lock file entry to now: the commit and the resolved ref that
  \<open>resolveRef\<close> gives for the entry's ref, if the key is a repository URL and the ref
  resolves.
\<close>

definition current_id :: "world \<Rightarrow> string \<Rightarrow> Dependency \<Rightarrow> (string \<times> string) option" where
  "current_id w repoURL dep =
     (case parseGitHubURL repoURL of
        Inl _ \<Rightarrow> None
      | Inr (owner, repo) \<Rightarrow>
          (case fst (resolveRef owner repo (Ref dep) w) of
             Inl _ \<Rightarrow> None
           | Inr r \<Rightarrow> Some r))"





definition long_id :: "string \<times> Dependency \<Rightarrow> bool" where
  "long_id e = (8 \<le> length (SHA (snd e)))"


text \<open>
  An entry is \<open>present\<close> when \<open>os.Stat\<close> of its path below \<open>.deps\<close> does not report that
  it does not exist, and \<open>unresolved\<close> when its key is no repository URL or its ref does
  not resolve.
\<close>

definition present :: "world \<Rightarrow> string \<times> Dependency \<Rightarrow> bool" where
  "present w e = (Stat (tree w) (getDepPath (fst e)) \<noteq> ENOENT)"

definition unresolved :: "world \<Rightarrow> string \<times> Dependency \<Rightarrow> bool" where
  "unresolved w e = (current_id w (fst e) (snd e) = None)"

section \<open>Concrete worlds\<close>

definition ledger1 :: LockFile where
  "ledger1 = \<lparr>Dependencies = Some [(''github.com/o/r'', \<lparr>Ref = ''main'', SHA = ''aaaaaaaaaa''\<rparr>)]\<rparr>"

definition encode :: "LockFile \<Rightarrow> string" where
  "encode lockFile =
     concat (map (\<lambda>(k, d). k @ ''@'' @ Ref d @ ''#'' @ SHA d @ '';'') (entries lockFile))"

text \<open>A world with no lock file, whose remote does not answer.\<close>

definition world0 :: world where
  "world0 =
     \<lparr>http_get = (\<lambda>url. NoResponse),
      unmarshal_repo = (\<lambda>b. Some b),
      unmarshal_branch = (\<lambda>b. Some b),
      unmarshal_ref = (\<lambda>b. Some b),
      unmarshal_lock = (\<lambda>b lockFile. if b = ''lock'' then (ledger1, None) else (ledger1, Some JsonError)),
      marshal_lock = (\<lambda>lockFile. Some (encode lockFile)),
      gunzip = (\<lambda>b. NotGzip),
      requests = [],
      tree = Map.empty,
      lock_writes = 0,
      stdout = []\<rparr>"

text \<open>\<open>v1.0\<close> is a tag and no branch; \<open>dev\<close> is both a branch and a tag.\<close>

definition world_tags :: world where
  "world_tags =
     world0\<lparr>http_get :=
       (\<lambda>url. if url = tag_url ''o'' ''r'' ''v1.0'' then Response 200 (Some ''tttttttt'')
              else if url = branch_url ''o'' ''r'' ''dev'' then Response 200 (Some ''bbbbbbbb'')
              else if url = tag_url ''o'' ''r'' ''dev'' then Response 200 (Some ''dddddddd'')
              else Response 404 None)\<rparr>"

text \<open>A lock file that does not parse, and one that holds \<open>ledger1\<close>.\<close>

definition world_corrupt :: world where
  "world_corrupt = world0\<lparr>tree := [''.deps.lock'' \<mapsto> FileNode 420 ''{'']\<rparr>"

definition world_locked :: world where
  "world_locked = world0\<lparr>tree := [''.deps.lock'' \<mapsto> FileNode 420 ''lock'']\<rparr>"




text \<open>
  A lock file whose entry records a commit of three characters. In \<open>world_short\<close> the remote
  does not answer; in \<open>world_short_main\<close> it resolves the branch \<open>main\<close>.
\<close>

definition ledger_short :: LockFile where
  "ledger_short = \<lparr>Dependencies = Some [(''github.com/o/r'', \<lparr>Ref = ''main'', SHA = ''abc''\<rparr>)]\<rparr>"

definition world_short :: world where
  "world_short =
     world0\<lparr>tree := [''.deps.lock'' \<mapsto> FileNode 420 ''lock''],
            unmarshal_lock := (\<lambda>b lockFile. (ledger_short, None))\<rparr>"

definition world_short_main :: world where
  "world_short_main =
     world_short\<lparr>http_get :=
       (\<lambda>url. if url = branch_url ''o'' ''r'' ''main'' then Response 200 (Some ''0123456789'')
              else Response 404 None)\<rparr>"

text \<open>
  Two archives: one with a metadata entry, a file and the directory of the wrapper
  \<open>repo-abc123\<close> and a file outside it; one that holds the same file name twice.
\<close>

definition wrapped :: "tar_item list" where
  "wrapped =
     [Entry \<lparr>Typeflag = TypeXGlobalHeader, Name = ''pax_global_header'', Mode = 438\<rparr> ''c'',
      Entry \<lparr>Typeflag = TypeReg, Name = ''repo-abc123/src/a.txt'', Mode = 420\<rparr> ''hi'',
      Entry \<lparr>Typeflag = TypeDir, Name = ''repo-abc123/'', Mode = 493\<rparr> [],
      Entry \<lparr>Typeflag = TypeReg, Name = ''other/b.txt'', Mode = 420\<rparr> ''no'']"

definition twice :: "tar_item list" where
  "twice =
     [Entry \<lparr>Typeflag = TypeReg, Name = ''r-1/a.txt'', Mode = 420\<rparr> ''hello world'',
      Entry \<lparr>Typeflag = TypeReg, Name = ''r-1/a.txt'', Mode = 420\<rparr> ''bye'']"

text \<open>
  An archive whose one entry, under the wrapper \<open>r-1\<close>, climbs out of the destination
  \<open>.deps/github.com/o/r\<close> to the lock file. In \<open>world_slip\<close> it is served for the commit
  that the lock file records; in \<open>world_slip_get\<close> the branch \<open>main\<close> resolves, and the
  archive served for its commit breaks off after that entry.
\<close>

definition slip :: "tar_item list" where
  "slip = [Entry \<lparr>Typeflag = TypeReg, Name = ''r-1/../../../../.deps.lock'', Mode = 420\<rparr> ''X'']"

definition world_slip :: world where
  "world_slip =
     world0\<lparr>tree := [''.deps.lock'' \<mapsto> FileNode 420 ''lock''],
            http_get :=
              (\<lambda>url. if url = tarball_url ''o'' ''r'' ''aaaaaaaaaa'' then Response 200 (Some ''tgz'')
                     else Response 404 None),
            gunzip := (\<lambda>b. if b = Some ''tgz'' then Gzip slip else NotGzip)\<rparr>"

definition world_slip_get :: world where
  "world_slip_get =
     world0\<lparr>tree := [''.deps.lock'' \<mapsto> FileNode 420 ''lock''],
            http_get :=
              (\<lambda>url. if url = branch_url ''o'' ''r'' ''main'' then Response 200 (Some ''bbbbbbbbbb'')
                     else if url = tarball_url ''o'' ''r'' ''bbbbbbbbbb'' then Response 200 (Some ''tgz'')
                     else Response 404 None),
            gunzip := (\<lambda>b. if b = Some ''tgz'' then Gzip (slip @ [Broken]) else NotGzip)\<rparr>"

section \<open>Frame lemmas\<close>

lemmas url_defs = repo_url_def branch_url_def tag_url_def tarball_url_def

lemma print_fields [simp]:
  "http_get (print e w) = http_get w"
  "unmarshal_repo (print e w) = unmarshal_repo w"
  "unmarshal_branch (print e w) = unmarshal_branch w"
  "unmarshal_ref (print e w) = unmarshal_ref w"
  "unmarshal_lock (print e w) = unmarshal_lock w"
  "marshal_lock (print e w) = marshal_lock w"
  "gunzip (print e w) = gunzip w"
  "requests (print e w) = requests w"
  "tree (print e w) = tree w"
  "lock_writes (print e w) = lock_writes w"
  "stdout (print e w) = stdout w @ [e]"
  by (simp_all add: print_def)

lemma getBranch_lookup:
  "getBranchCommitSHA owner repo name w =
     (case branch_lookup w owner repo name of
        Some sha \<Rightarrow> (Inr (sha, name), asked [branch_url owner repo name] w)
      | None \<Rightarrow>
          (Inl (case fst (getBranchCommitSHA owner repo name w) of
                  Inl e \<Rightarrow> e | Inr _ \<Rightarrow> JsonError),
           asked [branch_url owner repo name] w))"
  by (simp add: getBranchCommitSHA_def branch_lookup_def http_Get_def asked_def
      split: http_result.splits option.splits)

lemma getTag_lookup:
  "getTagCommitSHA owner repo name w =
     (case tag_lookup w owner repo name of
        Some sha \<Rightarrow> (Inr sha, asked [tag_url owner repo name] w)
      | None \<Rightarrow>
          (Inl (case fst (getTagCommitSHA owner repo name w) of
                  Inl e \<Rightarrow> e | Inr _ \<Rightarrow> JsonError),
           asked [tag_url owner repo name] w))"
  by (simp add: getTagCommitSHA_def tag_lookup_def http_Get_def asked_def
      split: http_result.splits option.splits)

lemma tag_lookup_asked: "tag_lookup (asked us w) = tag_lookup w"
  by (simp add: tag_lookup_def asked_def fun_eq_iff split: http_result.splits option.splits)

lemma asked_asked: "asked vs (asked us w) = asked (us @ vs) w"
  by (simp add: asked_def)

lemma ReadFile_lock:
  "t ''.deps.lock'' = Some (FileNode m bytes) \<Longrightarrow> ReadFile t ''.deps.lock'' = Some bytes"
  by (simp add: ReadFile_def Stat_def Clean_def ancestors_def lookup_def)

lemma ReadFile_no_lock: "t ''.deps.lock'' = None \<Longrightarrow> ReadFile t ''.deps.lock'' = None"
  by (simp add: ReadFile_def Stat_def Clean_def ancestors_def lookup_def)

lemma loadLockFile_frame:
  "loadLockFile w = (lockFile, w1) \<Longrightarrow> w1 = w \<or> (\<exists>e. w1 = print (WarnParse e) w)"
  by (auto simp: loadLockFile_def Let_def split: option.splits prod.splits)

lemma asked_fields [simp]:
  "http_get (asked us w) = http_get w"
  "unmarshal_repo (asked us w) = unmarshal_repo w"
  "unmarshal_branch (asked us w) = unmarshal_branch w"
  "unmarshal_ref (asked us w) = unmarshal_ref w"
  "unmarshal_lock (asked us w) = unmarshal_lock w"
  "marshal_lock (asked us w) = marshal_lock w"
  "gunzip (asked us w) = gunzip w"
  "requests (asked us w) = requests w @ us"
  "tree (asked us w) = tree w"
  "lock_writes (asked us w) = lock_writes w"
  "stdout (asked us w) = stdout w"
  by (simp_all add: asked_def)

lemma http_Get_asked: "http_Get url w = (http_get w url, asked [url] w)"
  by (simp add: http_Get_def asked_def)

lemma asked_Nil: "asked [] w = w"
  by (simp add: asked_def)

lemma quiet_refl [simp]: "quiet w w"
  by (simp add: quiet_def)

lemma quiet_trans: "quiet w w1 \<Longrightarrow> quiet w1 w2 \<Longrightarrow> quiet w w2"
  by (simp add: quiet_def)

lemma quiet_print [simp]: "quiet w (print e w') = quiet w w'"
  by (simp add: quiet_def)

lemma quiet_asked [simp]: "quiet w (asked us w') = quiet w w'"
  by (simp add: quiet_def)

lemma quiet_tree [simp]: "quiet w (w'\<lparr>tree := t\<rparr>) = quiet w w'"
  by (simp add: quiet_def)

lemma getLatest_asked: "\<exists>us. snd (getLatestCommitSHA owner repo w) = asked us w"
  unfolding getLatestCommitSHA_def http_Get_asked
  by (auto split: http_result.splits option.splits simp: asked_asked intro: exI)

lemma resolveRef_lookup:
  "ref \<noteq> [] \<Longrightarrow> \<not> is_commit_sha ref \<Longrightarrow>
     resolveRef owner repo ref w =
       (case branch_lookup w owner repo ref of
          Some sha \<Rightarrow> (Inr (sha, ref), asked [branch_url owner repo ref] w)
        | None \<Rightarrow>
            (case tag_lookup w owner repo ref of
               Some sha \<Rightarrow>
                 (Inr (sha, ref), asked [branch_url owner repo ref, tag_url owner repo ref] w)
             | None \<Rightarrow>
                 (Inl (CouldNotResolve ref),
                  asked [branch_url owner repo ref, tag_url owner repo ref] w)))"
  apply (simp add: resolveRef_def)
  apply (subst getBranch_lookup)
  apply (cases "branch_lookup w owner repo ref")
   apply simp
   apply (subst getTag_lookup)
   apply (cases "tag_lookup w owner repo ref")
    apply (simp_all add: tag_lookup_asked asked_asked)
  done

lemma resolveRef_asked: "\<exists>us. snd (resolveRef owner repo ref w) = asked us w"
proof (cases "ref = []")
  case True
  then show ?thesis using getLatest_asked by (simp add: resolveRef_def)
next
  case False
  show ?thesis
  proof (cases "is_commit_sha ref")
    case True
    then have "snd (resolveRef owner repo ref w) = asked [] w"
      by (simp add: resolveRef_def asked_Nil False)
    then show ?thesis by blast
  next
    case c: False
    show ?thesis
      by (simp add: resolveRef_lookup [OF False c] split: option.splits) blast
  qed
qed

lemma getLatest_env:
  "quiet w w' \<Longrightarrow>
   fst (getLatestCommitSHA owner repo w') = fst (getLatestCommitSHA owner repo w)"
  unfolding getLatestCommitSHA_def http_Get_asked quiet_def
  by (simp split: http_result.splits option.splits)

lemma lookup_env:
  "quiet w w' \<Longrightarrow> branch_lookup w' = branch_lookup w"
  "quiet w w' \<Longrightarrow> tag_lookup w' = tag_lookup w"
  by (simp_all add: branch_lookup_def tag_lookup_def quiet_def fun_eq_iff
      split: http_result.splits option.splits)

lemma resolveRef_env:
  "quiet w w' \<Longrightarrow> fst (resolveRef owner repo ref w') = fst (resolveRef owner repo ref w)"
proof (cases "ref = [] \<or> is_commit_sha ref")
  case True
  assume "quiet w w'"
  with True show ?thesis using getLatest_env [of w w' owner repo]
    by (auto simp: resolveRef_def)
next
  case False
  assume "quiet w w'"
  with False show ?thesis
    by (simp add: resolveRef_lookup lookup_env split: option.splits)
qed

lemma resolveRef_quiet: "resolveRef owner repo ref w = (res, w1) \<Longrightarrow> quiet w w1 \<and> tree w1 = tree w \<and> stdout w1 = stdout w"
  using resolveRef_asked [of owner repo ref w] by auto

lemma current_id_env: "quiet w w' \<Longrightarrow> current_id w' k d = current_id w k d"
  by (simp add: current_id_def resolveRef_env split: sum.splits)

lemma downloadRepo_quiet: "downloadRepo owner repo sha repoURL w = (res, w1) \<Longrightarrow> quiet w w1"
  unfolding downloadRepo_def http_Get_asked
  by (auto split: prod.splits option.splits http_result.splits if_splits simp: Let_def)

section \<open>Lemmas on update\<close>

lemma UD_quiet: "updateDependency k d lf w = (b, lf', w') \<Longrightarrow> quiet w w'"
  unfolding updateDependency_def
  by (auto simp: Let_def split: sum.splits prod.splits option.splits if_splits
      dest!: resolveRef_quiet downloadRepo_quiet intro: quiet_trans simp: quiet_def)


lemma UD_none:
  "current_id w k d = None \<Longrightarrow>
   \<exists>e w1. updateDependency k d lf w = (Some False, lf, print e w1) \<and> tree w1 = tree w \<and>
          stdout w1 = stdout w \<and>
          (e = UpdErrParsingURL k InvalidURL \<or> (\<exists>x. e = UpdErrResolving k (Ref d) x))"
proof (cases "parseGitHubURL k")
  case (Inl e)
  then have "e = InvalidURL"
    by (auto simp: parseGitHubURL_def split: list.splits if_splits)
  with Inl show ?thesis by (auto simp: updateDependency_def)
next
  case (Inr p)
  obtain owner repo where p: "p = (owner, repo)" by (cases p)
  obtain res w1 where r: "resolveRef owner repo (Ref d) w = (res, w1)"
    by (cases "resolveRef owner repo (Ref d) w")
  assume "current_id w k d = None"
  with Inr p r obtain x where "res = Inl x"
    by (auto simp: current_id_def split: sum.splits)
  with Inr p r resolveRef_quiet [OF r] show ?thesis
    by (auto simp: updateDependency_def)
qed


lemma UD_short:
  "length (SHA d) < 8 \<Longrightarrow> current_id w k d = Some x \<Longrightarrow>
   fst (updateDependency k d lf w) = None"
proof -
  assume l: "length (SHA d) < 8" and c: "current_id w k d = Some x"
  then obtain owner repo where p: "parseGitHubURL k = Inr (owner, repo)"
    by (auto simp: current_id_def split: sum.splits)
  obtain res w1 where r: "resolveRef owner repo (Ref d) w = (res, w1)"
    by (cases "resolveRef owner repo (Ref d) w")
  with c p have "res = Inr x"
    by (auto simp: current_id_def split: sum.splits)
  with p r l show ?thesis
    by (cases x) (simp add: updateDependency_def slice8_def Let_def)
qed






lemma UL_short:
  "(k, d) \<in> set xs \<Longrightarrow> length (SHA d) < 8 \<Longrightarrow> current_id w k d \<noteq> None \<Longrightarrow>
   fst (update_loop xs u lf w) = None"
proof (induction xs arbitrary: u lf w)
  case Nil
  then show ?case by simp
next
  case (Cons x xs)
  obtain k' d' where x: "x = (k', d')" by (cases x)
  obtain b1 lf1 w1 where s: "updateDependency k' d' lf w = (b1, lf1, w1)"
    by (cases "updateDependency k' d' lf w")
  have q: "quiet w w1" using UD_quiet [OF s] .
  show ?case
  proof (cases b1)
    case None
    with x s show ?thesis by simp
  next
    case (Some v)
    have "(k, d) \<noteq> (k', d')"
    proof
      assume "(k, d) = (k', d')"
      with Cons.prems UD_short [of d w k _ lf] s Some show False by auto
    qed
    with Cons.prems(1) x have "(k, d) \<in> set xs" by auto
    from Cons.IH [OF this Cons.prems(2), of w1] Cons.prems(3) q
    have "fst (update_loop xs (if v then True else u) lf1 w1) = None"
      by (simp add: current_id_env)
    with x s Some show ?thesis by simp
  qed
qed

lemma UL_unresolved:
  "list_all (\<lambda>e. current_id w (fst e) (snd e) = None) xs \<Longrightarrow>
   \<exists>w'. update_loop xs u lf w = (Some u, lf, w') \<and> tree w' = tree w"
proof (induction xs arbitrary: w)
  case Nil
  then show ?case by simp
next
  case (Cons x xs)
  obtain k d where x: "x = (k, d)" by (cases x)
  from Cons.prems x have n: "current_id w k d = None" by simp
  from UD_none [OF n, of lf] obtain e w1 where
    s: "updateDependency k d lf w = (Some False, lf, print e w1)" and t: "tree w1 = tree w"
    by blast
  have q: "quiet w (print e w1)" using UD_quiet [OF s] .
  from Cons.prems have "list_all (\<lambda>e'. current_id (print e w1) (fst e') (snd e') = None) xs"
    by (simp add: current_id_env [OF q])
  from Cons.IH [OF this] obtain w' where
    "update_loop xs u lf (print e w1) = (Some u, lf, w')" "tree w' = tree (print e w1)" by blast
  with x s t show ?case by simp
qed



lemma load_nonempty: "loadLockFile w = (lf, w1) \<Longrightarrow> entries lf \<noteq> [] \<Longrightarrow> w1 = w"
  by (auto simp: loadLockFile_def Let_def entries_def split: option.splits prod.splits)



lemma quiet_writes: "quiet w w' \<Longrightarrow> lock_writes w' = lock_writes w"
  by (simp add: quiet_def)










section \<open>Lemmas on check and install\<close>

lemma install_entry_short: "length (SHA d) < 8 \<Longrightarrow> fst (install_entry k d w) = False"
  by (simp add: install_entry_def checkDependency_def slice8_def)

lemma install_loop_short:
  "(k, d) \<in> set xs \<Longrightarrow> length (SHA d) < 8 \<Longrightarrow> fst (install_loop xs w) = False"
proof (induction xs arbitrary: w)
  case Nil
  then show ?case by simp
next
  case (Cons x xs)
  obtain k' d' where x: "x = (k', d')" by (cases x)
  obtain b w1 where s: "install_entry k' d' w = (b, w1)" by (cases "install_entry k' d' w")
  show ?case
  proof (cases b)
    case False
    with x s show ?thesis by simp
  next
    case True
    with s install_entry_short [of d' k' w] Cons.prems x have "(k, d) \<in> set xs" by auto
    from Cons.IH [OF this Cons.prems(2), of w1] x s True show ?thesis by simp
  qed
qed

lemma present_print: "present (print e w) = present w"
  by (rule ext) (simp add: present_def)

lemma check_loop_panic:
  "(fst (check_loop xs g w) = None) = list_ex (\<lambda>e. \<not> long_id e \<and> present w e) xs"
proof (induction xs arbitrary: g w)
  case Nil
  then show ?case by simp
next
  case (Cons x xs)
  obtain k d where x: "x = (k, d)" by (cases x)
  show ?case
    by (simp add: x checkDependency_def slice8_def Cons.IH present_print)
      (auto simp: present_def long_id_def)
qed

lemma load_world_short: "loadLockFile world_short = (ledger_short, world_short)"
  by (simp add: loadLockFile_def ReadFile_lock world_short_def world0_def)

lemma load_world_short_main: "loadLockFile world_short_main = (ledger_short, world_short_main)"
  by (simp add: loadLockFile_def ReadFile_lock world_short_main_def world_short_def world0_def)

lemma absent_short: "\<not> present world_short (''github.com/o/r'', d)"
  by (simp add: present_def getDepPath_def Join_def Clean_def Stat_def ancestors_def lookup_def
      world_short_def world0_def)

section \<open>Lemmas on the extraction loop\<close>

lemma route_detected:
  "seg \<noteq> [] \<Longrightarrow> route destPath (seg @ ''/'') h = (seg @ ''/'', stripped_target destPath seg h)"
  by (simp add: route_def stripped_target_def detect_def TrimPrefix_def Let_def)

lemma loop_detected:
  "seg \<noteq> [] \<Longrightarrow>
   extract_loop destPath (seg @ ''/'') items t = extract_stripped destPath seg items t"
proof (induction items arbitrary: t)
  case Nil
  then show ?case by simp
next
  case (Cons i items)
  then show ?case
    by (cases i) (simp_all add: route_detected split: option.splits prod.splits)
qed

lemma no_slash_no_prefix: "\<not> Contains name CHR ''/'' \<Longrightarrow> \<not> HasPrefix name (seg @ ''/'')"
proof
  assume n: "\<not> Contains name CHR ''/''" and p: "HasPrefix name (seg @ ''/'')"
  from p have "CHR ''/'' \<in> set (take (length (seg @ ''/'')) name)"
    by (simp add: HasPrefix_def)
  then have "CHR ''/'' \<in> set name" by (rule in_set_takeD)
  with n show False by (simp add: Contains_def)
qed

lemma route_before:
  "is_global_header h \<or> \<not> Contains (Name h) CHR ''/'' \<Longrightarrow>
   route destPath [] h = ([], None) \<and> stripped_target destPath seg h = None"
  by (auto simp: route_def stripped_target_def detect_def no_slash_no_prefix)

lemma Split_not_Nil: "Split c s \<noteq> []"
  by (induction s) (simp_all add: Let_def)

lemma route_first:
  assumes "\<not> is_global_header h" "Contains (Name h) CHR ''/''"
    "Contains (first_segment (Name h)) CHR ''-''"
  shows "route destPath [] h =
           (first_segment (Name h) @ ''/'', stripped_target destPath (first_segment (Name h)) h)"
proof -
  let ?seg = "first_segment (Name h)"
  from assms(3) have ne: "?seg \<noteq> []" by (auto simp: Contains_def)
  from assms have d: "detect [] (Name h) = ?seg @ ''/''"
    by (simp add: detect_def first_segment_def Split_not_Nil Let_def)
  from ne have d2: "detect (?seg @ ''/'') (Name h) = ?seg @ ''/''"
    by (simp add: detect_def)
  have "route destPath [] h = route destPath (?seg @ ''/'') h"
    using assms(1) by (simp only: route_def d d2 if_False)
  with route_detected [OF ne] show ?thesis by simp
qed

lemma loop_undetected:
  "first_slash_entry items = Some h \<Longrightarrow> Contains (first_segment (Name h)) CHR ''-'' \<Longrightarrow>
   extract_loop destPath [] items t = extract_stripped destPath (first_segment (Name h)) items t"
proof (induction items arbitrary: t)
  case Nil
  then show ?case by simp
next
  case (Cons i items)
  let ?seg = "first_segment (Name h)"
  from Cons.prems(2) have ne: "?seg \<noteq> []" by (auto simp: Contains_def)
  show ?case
  proof (cases i)
    case Broken
    with Cons.prems show ?thesis by simp
  next
    case (Entry h' bytes)
    show ?thesis
    proof (cases "\<not> is_global_header h' \<and> Contains (Name h') CHR ''/''")
      case True
      with Cons.prems(1) Entry have hh: "h' = h" by simp
      from True hh route_first [of h destPath] Cons.prems(2)
      have "route destPath [] h' = (?seg @ ''/'', stripped_target destPath ?seg h')" by simp
      with Entry show ?thesis
        by (simp add: loop_detected [OF ne] split: option.splits prod.splits)
    next
      case False
      with Cons.prems(1) Entry have f: "first_slash_entry items = Some h" by simp
      from False route_before [of h' destPath ?seg]
      have "route destPath [] h' = ([], None)" "stripped_target destPath ?seg h' = None"
        by auto
      with Entry Cons.IH [OF f Cons.prems(2)] show ?thesis by simp
    qed
  next
    case (Truncated h' bytes)
    show ?thesis
    proof (cases "\<not> is_global_header h' \<and> Contains (Name h') CHR ''/''")
      case True
      with Cons.prems(1) Truncated have hh: "h' = h" by simp
      from True hh route_first [of h destPath] Cons.prems(2)
      have "route destPath [] h' = (?seg @ ''/'', stripped_target destPath ?seg h')" by simp
      with Truncated show ?thesis
        by (simp add: loop_detected [OF ne] split: option.splits prod.splits)
    next
      case False
      with Cons.prems(1) Truncated have f: "first_slash_entry items = Some h" by simp
      from False route_before [of h' destPath ?seg]
      have "route destPath [] h' = ([], None)" "stripped_target destPath ?seg h' = None"
        by auto
      with Truncated Cons.IH [OF f Cons.prems(2)] show ?thesis by simp
    qed
  qed
qed

lemmas path_defs = Join_def Clean_def Dir_def ancestors_def lookup_def Stat_def
  MkdirAll_def RemoveAll_def endsWithDot_def below_def HasPrefix_def TrimPrefix_def
  Contains_def Let_def


section \<open>RefResolver\<close>

text \<open>
  C1. For every owner, repository and ref of 40 lowercase hexadecimal characters,
  \<open>resolveRef\<close> succeeds with that ref as the commit and as the resolved ref, and leaves the
  world as it was: in particular the log of requests to the remote is unchanged.
\<close>

theorem resolveRef_commit_sha:
  "is_commit_sha ref \<Longrightarrow>
     resolveRef owner repo ref w = (Inr (ref, ref), w) \<and>
     requests (snd (resolveRef owner repo ref w)) = requests w"
  by (auto simp: resolveRef_def is_commit_sha_def)

theorem resolveRef_commit_sha_witness:
  "is_commit_sha ''0123456789abcdef0123456789abcdef01234567'' \<and>
   resolveRef ''o'' ''r'' ''0123456789abcdef0123456789abcdef01234567'' world0 =
     (Inr (''0123456789abcdef0123456789abcdef01234567'',
           ''0123456789abcdef0123456789abcdef01234567''), world0)"
proof -
  have h: "is_commit_sha ''0123456789abcdef0123456789abcdef01234567''"
    by (simp add: is_commit_sha_def)
  from resolveRef_commit_sha [OF h, of "''o''" "''r''" world0] h show ?thesis by simp
qed

text \<open>
  C2. For every ref that is neither empty nor a commit identifier, \<open>resolveRef\<close> asks for the
  branch of that name first. If the branch lookup succeeds, its commit is returned with the
  ref, and the tag is never asked for, whatever the tag lookup would have given. Only if it
  fails is the tag of that name asked for; its commit is returned with the ref, and if the
  tag lookup fails too, the result is the error that the ref could not be resolved.
\<close>

theorem resolveRef_branch_then_tag:
  "ref \<noteq> [] \<Longrightarrow> \<not> is_commit_sha ref \<Longrightarrow>
     resolveRef owner repo ref w =
       (case branch_lookup w owner repo ref of
          Some sha \<Rightarrow> (Inr (sha, ref), asked [branch_url owner repo ref] w)
        | None \<Rightarrow>
            (case tag_lookup w owner repo ref of
               Some sha \<Rightarrow>
                 (Inr (sha, ref), asked [branch_url owner repo ref, tag_url owner repo ref] w)
             | None \<Rightarrow>
                 (Inl (CouldNotResolve ref),
                  asked [branch_url owner repo ref, tag_url owner repo ref] w)))"
  by (rule resolveRef_lookup)

theorem resolveRef_branch_then_tag_witness:
  "resolveRef ''o'' ''r'' ''v1.0'' world_tags =
     (Inr (''tttttttt'', ''v1.0''),
      asked [branch_url ''o'' ''r'' ''v1.0'', tag_url ''o'' ''r'' ''v1.0''] world_tags) \<and>
   resolveRef ''o'' ''r'' ''dev'' world_tags =
     (Inr (''bbbbbbbb'', ''dev''), asked [branch_url ''o'' ''r'' ''dev''] world_tags) \<and>
   resolveRef ''o'' ''r'' ''gone'' world_tags =
     (Inl (CouldNotResolve ''gone''),
      asked [branch_url ''o'' ''r'' ''gone'', tag_url ''o'' ''r'' ''gone''] world_tags)"
proof -
  have n: "\<not> is_commit_sha ''v1.0''" "\<not> is_commit_sha ''dev''" "\<not> is_commit_sha ''gone''"
    by (simp_all add: is_commit_sha_def)
  have b: "branch_lookup world_tags ''o'' ''r'' ''v1.0'' = None"
    "branch_lookup world_tags ''o'' ''r'' ''dev'' = Some ''bbbbbbbb''"
    "branch_lookup world_tags ''o'' ''r'' ''gone'' = None"
    by (simp_all add: branch_lookup_def world_tags_def world0_def url_defs)
  have t: "tag_lookup world_tags ''o'' ''r'' ''v1.0'' = Some ''tttttttt''"
    "tag_lookup world_tags ''o'' ''r'' ''gone'' = None"
    by (simp_all add: tag_lookup_def world_tags_def world0_def url_defs)
  show ?thesis
    using resolveRef_branch_then_tag [of "''v1.0''" "''o''" "''r''" world_tags]
      resolveRef_branch_then_tag [of "''dev''" "''o''" "''r''" world_tags]
      resolveRef_branch_then_tag [of "''gone''" "''o''" "''r''" world_tags]
    by (simp add: n b t)
qed

section \<open>LockStore\<close>

text \<open>
  C8. \<open>loadLockFile\<close> has no error result. If the lock file cannot be read, it returns the
  empty lock file and prints nothing. If the bytes do not parse, it returns the empty lock
  file, whatever the decoder had filled in before it failed, and prints one warning. If
  they parse, it returns what the decoder produced.
\<close>

theorem loadLockFile_total:
  "(ReadFile (tree w) ''.deps.lock'' = None \<longrightarrow>
      loadLockFile w = (\<lparr>Dependencies = Some []\<rparr>, w)) \<and>
   (\<forall>bytes partial e.
      ReadFile (tree w) ''.deps.lock'' = Some bytes \<and>
      unmarshal_lock w bytes \<lparr>Dependencies = Some []\<rparr> = (partial, Some e) \<longrightarrow>
      loadLockFile w = (\<lparr>Dependencies = Some []\<rparr>, print (WarnParse e) w)) \<and>
   (\<forall>bytes parsed.
      ReadFile (tree w) ''.deps.lock'' = Some bytes \<and>
      unmarshal_lock w bytes \<lparr>Dependencies = Some []\<rparr> = (parsed, None) \<longrightarrow>
      loadLockFile w = (parsed, w)) \<and>
   entries \<lparr>Dependencies = Some []\<rparr> = []"
  by (simp add: loadLockFile_def entries_def)

theorem loadLockFile_total_witness:
  "ReadFile (tree world0) ''.deps.lock'' = None \<and>
   loadLockFile world0 = (\<lparr>Dependencies = Some []\<rparr>, world0) \<and>
   ReadFile (tree world_corrupt) ''.deps.lock'' = Some ''{'' \<and>
   unmarshal_lock world_corrupt ''{'' \<lparr>Dependencies = Some []\<rparr> = (ledger1, Some JsonError) \<and>
   entries ledger1 \<noteq> [] \<and>
   loadLockFile world_corrupt =
     (\<lparr>Dependencies = Some []\<rparr>, print (WarnParse JsonError) world_corrupt)"
proof -
  have a: "ReadFile (tree world0) ''.deps.lock'' = None"
    by (simp add: ReadFile_no_lock world0_def)
  have b: "ReadFile (tree world_corrupt) ''.deps.lock'' = Some ''{''"
    "unmarshal_lock world_corrupt ''{'' \<lparr>Dependencies = Some []\<rparr> = (ledger1, Some JsonError)"
    by (simp_all add: ReadFile_lock world_corrupt_def world0_def)
  have c: "entries ledger1 \<noteq> []" by (simp add: entries_def ledger1_def)
  from loadLockFile_total [of world0] loadLockFile_total [of world_corrupt] a b c
  show ?thesis by blast
qed

section \<open>update with a key that the lock file does not hold\<close>

lemma load_world_locked: "loadLockFile world_locked = (ledger1, world_locked)"
  by (simp add: loadLockFile_def ReadFile_lock world_locked_def world0_def)

text \<open>
  C10, as the code has it. For every non-empty key that the lock file does not hold:
  if the lock file has entries, \<open>handleUpdate\<close> prints that the dependency was not found
  and exits with status 1; if it has none, the emptiness is reported first (line 199) and
  the command returns normally. Either way the lock file is not written, nothing is
  requested and the tree is untouched.
\<close>

theorem handleUpdate_unknown_key:
  "specificRepo \<noteq> [] \<Longrightarrow> loadLockFile w = (lockFile, w1) \<Longrightarrow>
   map_of (entries lockFile) specificRepo = None \<Longrightarrow>
     (entries lockFile \<noteq> [] \<longrightarrow>
        handleUpdate specificRepo w = (Exit 1, print (NotFoundInLock specificRepo) w1)) \<and>
     (entries lockFile = [] \<longrightarrow>
        handleUpdate specificRepo w = (Returned, print NoDependencies w1)) \<and>
     ReadFile (tree w1) ''.deps.lock'' = ReadFile (tree w) ''.deps.lock'' \<and>
     lock_writes w1 = lock_writes w \<and> requests w1 = requests w \<and> tree w1 = tree w"
  using loadLockFile_frame [of w lockFile w1] by (auto simp: handleUpdate_def)

theorem handleUpdate_unknown_key_witness:
  "handleUpdate ''github.com/x/y'' world_locked =
     (Exit 1, print (NotFoundInLock ''github.com/x/y'') world_locked)"
proof -
  have "entries ledger1 \<noteq> []" "map_of (entries ledger1) ''github.com/x/y'' = None"
    by (simp_all add: entries_def ledger1_def)
  with handleUpdate_unknown_key [of "''github.com/x/y''" world_locked ledger1 world_locked]
    load_world_locked
  show ?thesis by simp
qed

text \<open>
  With no lock file the key \<open>github.com/o/r\<close> is not held, and \<open>handleUpdate\<close> returns
  normally after printing that there are no dependencies.
\<close>

theorem handleUpdate_unknown_key_counterexample:
  "map_of (entries (fst (loadLockFile world0))) ''github.com/o/r'' = None \<and>
   handleUpdate ''github.com/o/r'' world0 = (Returned, print NoDependencies world0)"
  by (simp add: handleUpdate_def loadLockFile_def ReadFile_no_lock world0_def entries_def)

section \<open>update\<close>






section \<open>Recorded commits of fewer than 8 characters\<close>

text \<open>
  C9, as the code has it. Let the lock file parse and hold an entry whose commit has fewer
  than 8 characters. Then \<open>handleInstall\<close> panics. \<open>handleCheck\<close> panics exactly if the
  path of some such entry is present; an entry whose path is missing is reported as
  missing, without the slice. \<open>handleUpdate\<close>, of all entries or of that entry alone,
  panics if the entry's key is a repository URL and its ref resolves; if not, \<open>updateDependency\<close> reports the parse or
  resolution error for that entry and goes on, and if that holds for every entry, the
  command returns normally.
\<close>

theorem short_sha_panics:
  "loadLockFile w = (lockFile, w1) \<Longrightarrow> (k, d) \<in> set (entries lockFile) \<Longrightarrow>
   length (SHA d) < 8 \<Longrightarrow>
     fst (handleInstall w) = Panic \<and>
     (fst (handleCheck w) = Panic) =
       list_ex (\<lambda>e. \<not> long_id e \<and> present w e) (entries lockFile) \<and>
     (\<not> unresolved w (k, d) \<longrightarrow> fst (handleUpdate [] w) = Panic) \<and>
     (\<not> unresolved w (k, d) \<and> map_of (entries lockFile) k = Some d \<longrightarrow>
        fst (handleUpdate k w) = Panic) \<and>
     (unresolved w (k, d) \<longrightarrow>
        (\<forall>lf. \<exists>e w2. updateDependency k d lf w = (Some False, lf, print e w2) \<and>
           (e = UpdErrParsingURL k InvalidURL \<or> (\<exists>x. e = UpdErrResolving k (Ref d) x)))) \<and>
     (list_all (unresolved w) (entries lockFile) \<longrightarrow> fst (handleUpdate [] w) = Returned)"
proof -
  assume l: "loadLockFile w = (lockFile, w1)" and m: "(k, d) \<in> set (entries lockFile)"
    and s: "length (SHA d) < 8"
  from m have ne: "entries lockFile \<noteq> []" by auto
  have w1: "w1 = w" using load_nonempty [OF l ne] .
  have a: "fst (handleInstall w) = Panic"
    using install_loop_short [OF m s, of "print (Installing (length (entries lockFile))) w"] l ne w1
    by (cases "install_loop (entries lockFile) (print (Installing (length (entries lockFile))) w)")
      (simp add: handleInstall_def)
  have b: "(fst (handleCheck w) = Panic) =
      list_ex (\<lambda>e. \<not> long_id e \<and> present w e) (entries lockFile)"
    using check_loop_panic [of "entries lockFile" True "print (Checking (length (entries lockFile))) w"]
      l ne w1
    by (cases "check_loop (entries lockFile) True (print (Checking (length (entries lockFile))) w)")
      (auto simp: handleCheck_def present_print split: option.splits)
  let ?w0 = "print (CheckingUpdates (length (entries lockFile))) w"
  have q0: "quiet w ?w0" by simp
  have c: "fst (handleUpdate [] w) = Panic" if "\<not> unresolved w (k, d)"
  proof -
    from that have "current_id ?w0 k d \<noteq> None"
      by (simp add: unresolved_def current_id_env [OF q0])
    from UL_short [OF m s this, of False lockFile] l ne w1 show ?thesis
      by (cases "update_loop (entries lockFile) False lockFile ?w0")
        (simp add: handleUpdate_def)
  qed
  have d: "\<exists>e w2. updateDependency k d lf w = (Some False, lf, print e w2) \<and>
           (e = UpdErrParsingURL k InvalidURL \<or> (\<exists>x. e = UpdErrResolving k (Ref d) x))"
    if "unresolved w (k, d)" for lf
    using UD_none [of w k d lf] that by (auto simp: unresolved_def)
  have e: "fst (handleUpdate [] w) = Returned" if "list_all (unresolved w) (entries lockFile)"
  proof -
    from that have "list_all (\<lambda>e. current_id ?w0 (fst e) (snd e) = None) (entries lockFile)"
      by (simp add: unresolved_def current_id_env [OF q0] list_all_iff)
    from UL_unresolved [OF this, of False lockFile] l ne w1 show ?thesis
      by (auto simp: handleUpdate_def save_if_def)
  qed
  have t: "fst (handleUpdate k w) = Panic"
    if u: "\<not> unresolved w (k, d)" and mo: "map_of (entries lockFile) k = Some d"
  proof -
    have k: "k \<noteq> []"
    proof
      assume "k = []"
      then have "current_id w k d = None" by (simp add: current_id_def parseGitHubURL_def)
      with u show False by (simp add: unresolved_def)
    qed
    from u obtain x where "current_id w k d = Some x" by (auto simp: unresolved_def)
    from UD_short [OF s this, of lockFile] l ne w1 k mo show ?thesis
      by (cases "updateDependency k d lockFile w") (simp add: handleUpdate_def)
  qed
  from a b c d e t show ?thesis by blast
qed

theorem short_sha_panics_witness:
  "fst (handleInstall world_short) = Panic \<and>
   fst (handleCheck world_short) \<noteq> Panic \<and>
   fst (handleUpdate [] world_short) = Returned \<and>
   fst (handleUpdate [] world_short_main) = Panic"
proof -
  have e: "(''github.com/o/r'', \<lparr>Ref = ''main'', SHA = ''abc''\<rparr>) \<in> set (entries ledger_short)"
    "entries ledger_short = [(''github.com/o/r'', \<lparr>Ref = ''main'', SHA = ''abc''\<rparr>)]"
    by (simp_all add: ledger_short_def entries_def)
  have u: "unresolved world_short (''github.com/o/r'', \<lparr>Ref = ''main'', SHA = ''abc''\<rparr>)"
    by (simp add: unresolved_def current_id_def parseGitHubURL_def resolveRef_lookup
        is_commit_sha_def branch_lookup_def tag_lookup_def world_short_def world0_def)
  have r: "\<not> unresolved world_short_main (''github.com/o/r'', \<lparr>Ref = ''main'', SHA = ''abc''\<rparr>)"
    by (simp add: unresolved_def current_id_def parseGitHubURL_def resolveRef_lookup
        is_commit_sha_def branch_lookup_def world_short_main_def world_short_def world0_def)
  from short_sha_panics [OF load_world_short e(1)]
    short_sha_panics [OF load_world_short_main e(1)] u r absent_short
  show ?thesis by (simp add: e(2))
qed



text \<open>
  The lock file parses and its one entry records the commit \<open>abc\<close>. Nothing is below
  \<open>.deps\<close> and the remote does not answer: \<open>handleCheck\<close> reports the entry as missing and
  returns, and \<open>handleUpdate\<close> returns.
\<close>

theorem short_sha_panics_counterexample:
  "fst (loadLockFile world_short) = ledger_short \<and>
   entries ledger_short = [(''github.com/o/r'', \<lparr>Ref = ''main'', SHA = ''abc''\<rparr>)] \<and>
   handleCheck world_short =
     (Returned,
      world_short\<lparr>stdout := [Checking 1, CheckMissing ''github.com/o/r'', NeedAttention]\<rparr>) \<and>
   fst (handleUpdate [] world_short) = Returned"
proof -
  have e: "entries ledger_short = [(''github.com/o/r'', \<lparr>Ref = ''main'', SHA = ''abc''\<rparr>)]"
    by (simp add: ledger_short_def entries_def)
  have c: "checkDependency ''github.com/o/r'' d (print ev world_short) = Inr ''missing''" for d ev
    using absent_short [of d] by (simp add: checkDependency_def present_def)
  have u: "current_id w ''github.com/o/r'' \<lparr>Ref = ''main'', SHA = ''abc''\<rparr> = None"
    if "http_get w = (\<lambda>url. NoResponse)" for w
    using that
    by (simp add: current_id_def parseGitHubURL_def resolveRef_lookup is_commit_sha_def
        branch_lookup_def tag_lookup_def)
  have h: "http_get (print ev world_short) = (\<lambda>url. NoResponse)" for ev
    by (simp add: world_short_def world0_def)
  have "handleCheck world_short =
     (Returned,
      world_short\<lparr>stdout := [Checking 1, CheckMissing ''github.com/o/r'', NeedAttention]\<rparr>)"
    by (simp add: handleCheck_def load_world_short e c)
      (simp add: print_def world_short_def world0_def)
  moreover have "fst (handleUpdate [] world_short) = Returned"
    using UL_unresolved [of "print (CheckingUpdates 1) world_short" "entries ledger_short" False ledger_short]
      u [OF h]
    by (auto simp: handleUpdate_def load_world_short e save_if_def)
  ultimately show ?thesis by (simp add: load_world_short e)
qed


section \<open>ArchiveExtractor\<close>

text \<open>
  C6. For every archive whose first entry with a slash in its name (metadata entries
  apart) has a hyphen in the first segment of that name, \<open>extractTarball\<close> is the extraction
  below that segment as wrapper: it writes each entry under the wrapper at the destination
  joined with the entry's name less the wrapper segment, and skips the wrapper directory's
  own entry and every entry that is not under the wrapper. For the entries
  \<open>repo-abc123/src/a.txt\<close> and \<open>repo-abc123/\<close> and the destination \<open>/out\<close> the result is
  \<open>/out/src/a.txt\<close> in its directories, and nothing at \<open>/out/repo-abc123\<close>.
\<close>

theorem extractTarball_strips_wrapper:
  "first_slash_entry items = Some h \<Longrightarrow> Contains (first_segment (Name h)) CHR ''-'' \<Longrightarrow>
   extractTarball (Gzip items) destPath t =
     (case MkdirAll destPath 493 (RemoveAll destPath t) of
        (Some e, t1) \<Rightarrow> (Some e, t1)
      | (None, t1) \<Rightarrow> extract_stripped destPath (first_segment (Name h)) items t1)"
  by (simp add: extractTarball_def loop_undetected split: prod.splits option.splits)

theorem extractTarball_strips_wrapper_witness:
  "extractTarball (Gzip wrapped) ''/out'' Map.empty =
     (None, [''/out'' \<mapsto> DirNode 493, ''/out/src'' \<mapsto> DirNode 493,
             ''/out/src/a.txt'' \<mapsto> FileNode 420 ''hi''])"
proof -
  let ?h = "\<lparr>Typeflag = TypeReg, Name = ''repo-abc123/src/a.txt'', Mode = 420\<rparr>"
  have f: "first_slash_entry wrapped = Some ?h"
    by (simp add: wrapped_def is_global_header_def Contains_def)
  have s: "first_segment (Name ?h) = ''repo-abc123''"
    by (simp add: first_segment_def)
  have c: "Contains (first_segment (Name ?h)) CHR ''-''"
    unfolding s by (simp add: Contains_def)
  show ?thesis
    unfolding extractTarball_strips_wrapper [OF f c] s
    by (simp add: wrapped_def stripped_target_def is_global_header_def write_entry_def
        write_file_def path_defs fun_upd_twist)
qed


text \<open>
  C7 fails on the code. The file is opened with \<open>os.O_CREATE|os.O_WRONLY\<close>, without
  \<open>os.O_TRUNC\<close>. An archive may hold the same name twice: the second entry finds the file
  of the first, and its bytes \<open>bye\<close> replace only the first three bytes of \<open>hello world\<close>.
  The extraction succeeds, and the file holds \<open>byelo world\<close>, which is the content of
  neither entry.
\<close>

theorem extract_overwrite_keeps_tail:
  "fst (extractTarball (Gzip twice) ''/out'' Map.empty) = None \<and>
   snd (extractTarball (Gzip twice) ''/out'' Map.empty) ''/out/a.txt'' =
     Some (FileNode 420 ''byelo world'')"
  by (simp add: extractTarball_def twice_def route_def detect_def is_global_header_def write_entry_def
        write_file_def path_defs)


section \<open>get and install against an archive that leaves its destination\<close>

text \<open>
  C4 fails on the code. \<open>extractTarball\<close> joins the destination with the name of the entry
  and opens the result, with no check that it lies below the destination. The lock file
  records \<open>github.com/o/r\<close> at a commit whose path is missing, so \<open>handleInstall\<close> fetches
  it. The archive's entry \<open>r-1/../../../../.deps.lock\<close> is routed to \<open>.deps.lock\<close>:
  \<open>handleInstall\<close> returns normally, \<open>saveLockFile\<close> was never called, and the lock file,
  which held \<open>lock\<close>, holds \<open>Xock\<close> and no longer parses to the Ledger it held.
\<close>

theorem handleInstall_overwrites_lock:
  "route ''.deps/github.com/o/r'' []
     \<lparr>Typeflag = TypeReg, Name = ''r-1/../../../../.deps.lock'', Mode = 420\<rparr> =
     (''r-1/'', Some ''.deps.lock'') \<and>
   loadLockFile world_slip = (ledger1, world_slip) \<and>
   ReadFile (tree world_slip) ''.deps.lock'' = Some ''lock'' \<and>
   fst (handleInstall world_slip) = Returned \<and>
   lock_writes (snd (handleInstall world_slip)) = lock_writes world_slip \<and>
   ReadFile (tree (snd (handleInstall world_slip))) ''.deps.lock'' = Some ''Xock'' \<and>
   fst (loadLockFile (snd (handleInstall world_slip))) = \<lparr>Dependencies = Some []\<rparr>"
proof -
  have a: "loadLockFile world_slip = (ledger1, world_slip)"
    by (simp add: loadLockFile_def ReadFile_lock world_slip_def world0_def)
  have b: "route ''.deps/github.com/o/r'' []
     \<lparr>Typeflag = TypeReg, Name = ''r-1/../../../../.deps.lock'', Mode = 420\<rparr> =
     (''r-1/'', Some ''.deps.lock'')"
    "ReadFile (tree world_slip) ''.deps.lock'' = Some ''lock''"
    "fst (handleInstall world_slip) = Returned"
    "lock_writes (snd (handleInstall world_slip)) = lock_writes world_slip"
    "ReadFile (tree (snd (handleInstall world_slip))) ''.deps.lock'' = Some ''Xock''"
    "fst (loadLockFile (snd (handleInstall world_slip))) = \<lparr>Dependencies = Some []\<rparr>"
    by code_simp+
  from a b show ?thesis by simp
qed

text \<open>
  C3 fails on the code, by the same defect. \<open>handleGet\<close> resolves \<open>main\<close> and downloads the
  archive; its first entry is written over the lock file, and the header after it is
  broken, so the extraction fails and \<open>handleGet\<close> exits with status 1. \<open>saveLockFile\<close> was
  not called, yet the lock file, which held \<open>lock\<close>, holds \<open>Xock\<close>.
\<close>

theorem handleGet_failure_overwrites_lock:
  "ReadFile (tree world_slip_get) ''.deps.lock'' = Some ''lock'' \<and>
   fst (resolveRef ''o'' ''r'' ''main'' world_slip_get) = Inr (''bbbbbbbbbb'', ''main'') \<and>
   fst (extractTarball (Gzip (slip @ [Broken])) ''.deps/github.com/o/r''
          (tree world_slip_get)) = Some TarError \<and>
   fst (handleGet ''github.com/o/r@main'' world_slip_get) = Exit 1 \<and>
   lock_writes (snd (handleGet ''github.com/o/r@main'' world_slip_get)) =
     lock_writes world_slip_get \<and>
   ReadFile (tree (snd (handleGet ''github.com/o/r@main'' world_slip_get))) ''.deps.lock'' =
     Some ''Xock''"
  by code_simp

end
